theory Spec2Isabelle
  imports Main "HOL-Library.Word"
begin

unbundle bit_operations_syntax

section \<open>JavaScript values, errors and coercions\<close>

text \<open>
  Strings are byte lists (the UTF-8 encoding of the JavaScript string). Numbers are
  modelled as integers: the only numbers the code handles are the expiry in seconds and
  the HTTP status. A rejected promise or a thrown exception is the left summand of a sum.
\<close>

datatype error = Error string | TypeError string | SyntaxError string

datatype jsval =
    JUndefined
  | JNull
  | JBool bool
  | JNum int
  | JStr string
  | JArr "jsval list"
  | JObj "(string \<times> jsval) list"

text \<open>Truthiness, as \<open>Boolean(x)\<close>, \<open>!x\<close> and \<open>&&\<close> read it.\<close>

fun js_truthy :: "jsval \<Rightarrow> bool" where
  "js_truthy JUndefined = False"
| "js_truthy JNull = False"
| "js_truthy (JBool b) = b"
| "js_truthy (JNum n) = (n \<noteq> 0)"
| "js_truthy (JStr s) = (s \<noteq> [])"
| "js_truthy (JArr xs) = True"
| "js_truthy (JObj kvs) = True"

text \<open>\<open>a && b\<close> is \<open>a\<close> when \<open>a\<close> is falsy and \<open>b\<close> otherwise.\<close>

definition js_and :: "jsval \<Rightarrow> jsval \<Rightarrow> jsval" where
  "js_and a b = (if js_truthy a then b else a)"

text \<open>A value of \<open>process.env\<close>: a string, or \<open>undefined\<close> when the variable is unset.\<close>

definition env_value :: "string option \<Rightarrow> jsval" where
  "env_value v = (case v of None \<Rightarrow> JUndefined | Some s \<Rightarrow> JStr s)"

text \<open>What \<open>Headers.get\<close> returns: a string, or \<open>null\<close> when the header is absent.\<close>

definition header_value :: "string option \<Rightarrow> jsval" where
  "header_value v = (case v of None \<Rightarrow> JNull | Some s \<Rightarrow> JStr s)"

text \<open>Decimal rendering of a number, as \<open>String(n)\<close> and a template literal produce it.\<close>

definition digit_char :: "nat \<Rightarrow> char" where
  "digit_char d = ''0123456789'' ! (d mod 10)"

fun nat_digits :: "nat \<Rightarrow> string" where
  "nat_digits n = (if n < 10 then [digit_char n] else nat_digits (n div 10) @ [digit_char n])"

declare nat_digits.simps [simp del]

definition int_digits :: "int \<Rightarrow> string" where
  "int_digits i = (if i < 0 then CHR ''-'' # nat_digits (nat (- i)) else nat_digits (nat i))"

text \<open>
  One token of a \<open>RedisCommand = Array<string | number>\<close>. \<open>TUndefined\<close> is the
  \<open>undefined\<close> that \<open>JSON.stringify\<close> returns for a value with no JSON form, which
  the type \<open>unknown\<close> of the cached value does not exclude.
\<close>

datatype token = TStr string | TNum int | TUndefined

fun String :: "token \<Rightarrow> string" where
  "String (TStr s) = s"
| "String (TNum n) = int_digits n"
| "String TUndefined = ''undefined''"

text \<open>A template-literal slot holding an environment value.\<close>

definition template_slot :: "string option \<Rightarrow> string" where
  "template_slot v = (case v of None \<Rightarrow> ''undefined'' | Some s \<Rightarrow> s)"

text \<open>\<open>x[0]\<close>: a TypeError on \<open>null\<close> and \<open>undefined\<close>, \<open>undefined\<close> where there is no such element.\<close>

fun js_index0 :: "jsval \<Rightarrow> error + jsval" where
  "js_index0 JUndefined = Inl (TypeError ''Cannot read properties of undefined (reading 0)'')"
| "js_index0 JNull = Inl (TypeError ''Cannot read properties of null (reading 0)'')"
| "js_index0 (JArr xs) = Inr (case xs of [] \<Rightarrow> JUndefined | x # _ \<Rightarrow> x)"
| "js_index0 (JObj kvs) = Inr (case map_of kvs ''0'' of None \<Rightarrow> JUndefined | Some v \<Rightarrow> v)"
| "js_index0 (JStr s) = Inr (case s of [] \<Rightarrow> JUndefined | c # _ \<Rightarrow> JStr [c])"
| "js_index0 (JBool b) = Inr JUndefined"
| "js_index0 (JNum n) = Inr JUndefined"

text \<open>\<open>x?.result\<close>: \<open>undefined\<close> on \<open>null\<close> and \<open>undefined\<close>, the own property otherwise.\<close>

fun js_opt_result :: "jsval \<Rightarrow> jsval" where
  "js_opt_result (JObj kvs) = (case map_of kvs ''result'' of None \<Rightarrow> JUndefined | Some v \<Rightarrow> v)"
| "js_opt_result _ = JUndefined"

section \<open>The platform: JSON codec and HTTP fetch\<close>

record http_request =
  url :: string
  http_method :: string
  headers :: "(string \<times> string) list"
  body :: "string option"

record http_response =
  status :: nat
  response_text :: string

definition ok :: "http_response \<Rightarrow> bool" where
  "ok r = (200 \<le> status r \<and> status r \<le> 299)"

datatype fetch_result = Rejected error | Fulfilled http_response

text \<open>
  The built-ins the code calls are parameters of the model: \<open>JSON.parse\<close> (which throws a
  SyntaxError on malformed text), \<open>JSON.stringify\<close> (\<open>None\<close> is \<open>undefined\<close>) and
  \<open>fetch\<close>, which acts on the state \<open>'w\<close> of the world outside the process (the
  remote store) and either rejects or fulfils with a response. \<open>response.json()\<close>
  parses the response text with the same JSON grammar.
\<close>

record 'w runtime =
  JSON_parse :: "string \<Rightarrow> error + jsval"
  JSON_stringify :: "jsval \<Rightarrow> string option"
  fetch :: "http_request \<Rightarrow> 'w \<Rightarrow> fetch_result \<times> 'w"

section \<open>shared/lib/redis.ts\<close>

text \<open>The two module constants, captured from \<open>process.env\<close> when the module is loaded.\<close>

record redis_module =
  REDIS_URL :: "string option"
  REDIS_TOKEN :: "string option"

definition load_redis_module :: "(string \<rightharpoonup> string) \<Rightarrow> redis_module" where
  "load_redis_module process_env =
     \<lparr>REDIS_URL = process_env ''UPSTASH_REDIS_REST_URL'',
      REDIS_TOKEN = process_env ''UPSTASH_REDIS_REST_TOKEN''\<rparr>"

definition hasRedisConfig :: "redis_module \<Rightarrow> bool" where
  "hasRedisConfig m = js_truthy (js_and (env_value (REDIS_URL m)) (env_value (REDIS_TOKEN m)))"

definition pipeline_request :: "redis_module \<Rightarrow> string option \<Rightarrow> http_request" where
  "pipeline_request m payload_text =
     \<lparr>url = template_slot (REDIS_URL m) @ ''/pipeline'',
      http_method = ''POST'',
      headers = [(''Authorization'', ''Bearer '' @ template_slot (REDIS_TOKEN m)),
                 (''Content-Type'', ''application/json'')],
      body = payload_text\<rparr>"

definition redisFetch ::
  "redis_module \<Rightarrow> 'w runtime \<Rightarrow> jsval \<Rightarrow> 'w \<Rightarrow> (error + jsval) \<times> 'w" where
  "redisFetch m rt payload w =
     (if \<not> js_truthy (env_value (REDIS_URL m)) \<or> \<not> js_truthy (env_value (REDIS_TOKEN m))
      then (Inl (Error ''Redis config missing.''), w)
      else
        (case fetch rt (pipeline_request m (JSON_stringify rt payload)) w of
           (Rejected e, w') \<Rightarrow> (Inl e, w')
         | (Fulfilled response, w') \<Rightarrow>
             if \<not> ok response
             then (Inl (Error (''Redis request failed: '' @ nat_digits (status response)
                                @ '' '' @ response_text response)), w')
             else (JSON_parse rt (response_text response), w')))"

definition command_payload :: "token list list \<Rightarrow> jsval" where
  "command_payload commands = JArr (map (\<lambda>command. JArr (map (\<lambda>t. JStr (String t)) command)) commands)"

definition redisPipeline ::
  "redis_module \<Rightarrow> 'w runtime \<Rightarrow> token list list \<Rightarrow> 'w \<Rightarrow> (error + jsval) \<times> 'w" where
  "redisPipeline m rt commands w = redisFetch m rt (command_payload commands) w"

definition redisGetJson ::
  "redis_module \<Rightarrow> 'w runtime \<Rightarrow> string \<Rightarrow> 'w \<Rightarrow> (error + jsval) \<times> 'w" where
  "redisGetJson m rt key w =
     (case redisPipeline m rt [[TStr ''GET'', TStr key]] w of
        (Inl e, w') \<Rightarrow> (Inl e, w')
      | (Inr results, w') \<Rightarrow>
          (case js_index0 results of
             Inl e \<Rightarrow> (Inl e, w')
           | Inr first \<Rightarrow>
               (let result = js_opt_result first in
                if result = JNull \<or> result = JUndefined then (Inr JNull, w')
                else (case result of
                        JStr s \<Rightarrow> (JSON_parse rt s, w')
                      | _ \<Rightarrow> (Inr result, w')))))"

definition redisSetJson ::
  "redis_module \<Rightarrow> 'w runtime \<Rightarrow> string \<Rightarrow> jsval \<Rightarrow> int \<Rightarrow> 'w \<Rightarrow> (error + unit) \<times> 'w" where
  "redisSetJson m rt key val ttlSeconds w =
     (let payload = (case JSON_stringify rt val of None \<Rightarrow> TUndefined | Some p \<Rightarrow> TStr p) in
      case redisPipeline m rt [[TStr ''SET'', TStr key, payload, TStr ''EX'', TNum ttlSeconds]] w of
        (Inl e, w') \<Rightarrow> (Inl e, w')
      | (Inr results, w') \<Rightarrow> (Inr (), w'))"

section \<open>SHA-256, as \<open>createHash('sha256').update(rawKey).digest('hex')\<close> computes it\<close>

text \<open>
  The digest of Node's \<open>crypto\<close> module is the SHA-256 of FIPS 180-4 over the UTF-8
  bytes of the string, printed as lowercase hexadecimal.
\<close>

type_synonym u32 = "32 word"

definition rotr :: "nat \<Rightarrow> u32 \<Rightarrow> u32" where
  "rotr n x = (drop_bit n x) OR (push_bit (32 - n) x)"

definition Ch :: "u32 \<Rightarrow> u32 \<Rightarrow> u32 \<Rightarrow> u32" where
  "Ch x y z = (x AND y) XOR (NOT x AND z)"

definition Maj :: "u32 \<Rightarrow> u32 \<Rightarrow> u32 \<Rightarrow> u32" where
  "Maj x y z = (x AND y) XOR (x AND z) XOR (y AND z)"

definition Sigma0 :: "u32 \<Rightarrow> u32" where
  "Sigma0 x = rotr 2 x XOR rotr 13 x XOR rotr 22 x"

definition Sigma1 :: "u32 \<Rightarrow> u32" where
  "Sigma1 x = rotr 6 x XOR rotr 11 x XOR rotr 25 x"

definition sigma0 :: "u32 \<Rightarrow> u32" where
  "sigma0 x = rotr 7 x XOR rotr 18 x XOR drop_bit 3 x"

definition sigma1 :: "u32 \<Rightarrow> u32" where
  "sigma1 x = rotr 17 x XOR rotr 19 x XOR drop_bit 10 x"

definition K256 :: "u32 list" where
  "K256 =
     [0x428a2f98, 0x71374491, 0xb5c0fbcf, 0xe9b5dba5] @ [0x3956c25b, 0x59f111f1, 0x923f82a4, 0xab1c5ed5] @
     [0xd807aa98, 0x12835b01, 0x243185be, 0x550c7dc3] @ [0x72be5d74, 0x80deb1fe, 0x9bdc06a7, 0xc19bf174] @
     [0xe49b69c1, 0xefbe4786, 0x0fc19dc6, 0x240ca1cc] @ [0x2de92c6f, 0x4a7484aa, 0x5cb0a9dc, 0x76f988da] @
     [0x983e5152, 0xa831c66d, 0xb00327c8, 0xbf597fc7] @ [0xc6e00bf3, 0xd5a79147, 0x06ca6351, 0x14292967] @
     [0x27b70a85, 0x2e1b2138, 0x4d2c6dfc, 0x53380d13] @ [0x650a7354, 0x766a0abb, 0x81c2c92e, 0x92722c85] @
     [0xa2bfe8a1, 0xa81a664b, 0xc24b8b70, 0xc76c51a3] @ [0xd192e819, 0xd6990624, 0xf40e3585, 0x106aa070] @
     [0x19a4c116, 0x1e376c08, 0x2748774c, 0x34b0bcb5] @ [0x391c0cb3, 0x4ed8aa4a, 0x5b9cca4f, 0x682e6ff3] @
     [0x748f82ee, 0x78a5636f, 0x84c87814, 0x8cc70208] @ [0x90befffa, 0xa4506ceb, 0xbef9a3f7, 0xc67178f2]"

definition H0 :: "u32 list" where
  "H0 = [0x6a09e667, 0xbb67ae85, 0x3c6ef372, 0xa54ff53a] @ [0x510e527f, 0x9b05688c, 0x1f83d9ab, 0x5be0cd19]"

text \<open>Padding: the message, the byte 0x80, zero bytes up to 56 modulo 64, the bit length in 8 bytes.\<close>

definition be64 :: "64 word \<Rightarrow> 8 word list" where
  "be64 w = map (\<lambda>i. ucast (drop_bit (8 * (7 - i)) w)) [0..<8]"

definition pad :: "8 word list \<Rightarrow> 8 word list" where
  "pad m = m @ [0x80] @ replicate ((119 - length m mod 64) mod 64) 0 @ be64 (of_nat (8 * length m))"

fun words_of :: "8 word list \<Rightarrow> u32 list" where
  "words_of (a # b # c # d # r) =
     (push_bit 24 (ucast a) OR push_bit 16 (ucast b) OR push_bit 8 (ucast c) OR ucast d) # words_of r"
| "words_of _ = []"

primrec blocks :: "nat \<Rightarrow> 8 word list \<Rightarrow> 8 word list list" where
  "blocks 0 m = []"
| "blocks (Suc k) m = take 64 m # blocks k (drop 64 m)"

fun schedule :: "nat \<Rightarrow> u32 list \<Rightarrow> u32 list" where
  "schedule 0 w = w"
| "schedule (Suc k) w =
     (let n = length w in
      schedule k (w @ [sigma1 (w ! (n - 2)) + w ! (n - 7) + sigma0 (w ! (n - 15)) + w ! (n - 16)]))"

definition sha_round :: "u32 list \<Rightarrow> (u32 \<times> u32) \<Rightarrow> u32 list" where
  "sha_round s kw =
     (let a = s ! 0; b = s ! 1; c = s ! 2; d = s ! 3; e = s ! 4; f = s ! 5; g = s ! 6; h = s ! 7;
          t1 = h + Sigma1 e + Ch e f g + fst kw + snd kw;
          t2 = Sigma0 a + Maj a b c
      in [t1 + t2, a, b, c, d + t1, e, f, g])"

definition compress :: "u32 list \<Rightarrow> 8 word list \<Rightarrow> u32 list" where
  "compress h blk = map2 (+) h (foldl sha_round h (zip K256 (schedule 48 (words_of blk))))"

definition sha256 :: "8 word list \<Rightarrow> u32 list" where
  "sha256 m = foldl compress H0 (blocks (length (pad m) div 64) (pad m))"

definition hexdigit :: "nat \<Rightarrow> char" where
  "hexdigit n = ''0123456789abcdef'' ! (n mod 16)"

definition hex32 :: "u32 \<Rightarrow> string" where
  "hex32 w = map (\<lambda>i. hexdigit (unat (take_bit 4 (drop_bit (4 * (7 - i)) w)))) [0..<8]"

definition sha256_hex :: "string \<Rightarrow> string" where
  "sha256_hex s = concat (map hex32 (sha256 (map (\<lambda>c. of_nat (of_char c)) s)))"

definition lower_hex :: "char \<Rightarrow> bool" where
  "lower_hex c = (c \<in> set ''0123456789abcdef'')"

section \<open>The hashed cache (the module of \<open>buildHashedCacheKey\<close>)\<close>

definition buildHashedCacheKey :: "string \<Rightarrow> string \<Rightarrow> string" where
  "buildHashedCacheKey prefix rawKey = (let hash = sha256_hex rawKey in prefix @ '':'' @ hash)"

definition getRedisCachedJson ::
  "redis_module \<Rightarrow> 'w runtime \<Rightarrow> string \<Rightarrow> string \<Rightarrow> 'w \<Rightarrow> (error + jsval) \<times> 'w" where
  "getRedisCachedJson m rt prefix rawKey w =
     (if \<not> hasRedisConfig m then (Inr JNull, w)
      else
        (case redisGetJson m rt (buildHashedCacheKey prefix rawKey) w of
           (Inr v, w') \<Rightarrow> (Inr v, w')
         | (Inl e, w') \<Rightarrow> (Inr JNull, w')))"

definition setRedisCachedJson ::
  "redis_module \<Rightarrow> 'w runtime \<Rightarrow> string \<Rightarrow> string \<Rightarrow> jsval \<Rightarrow> int \<Rightarrow> 'w \<Rightarrow> (error + unit) \<times> 'w" where
  "setRedisCachedJson m rt prefix rawKey val ttlSeconds w =
     (if \<not> hasRedisConfig m then (Inr (), w)
      else
        (case redisSetJson m rt (buildHashedCacheKey prefix rawKey) val ttlSeconds w of
           (Inr u, w') \<Rightarrow> (Inr (), w')
         | (Inl e, w') \<Rightarrow> (Inr (), w')))"

section \<open>The health-check route\<close>

text \<open>
  The handler reads \<open>process.env.HEALTHCHECK_SECRET\<close> on every request. The statistics
  of the two rate limiters and the clock are inputs of the handler: the rate-limit module
  is outside the files at hand, and the handler only copies what \<open>getStats()\<close> returns.
\<close>

record request =
  headers_get :: "string \<Rightarrow> string option"

record route_env =
  process_env :: "string \<rightharpoonup> string"
  redis :: redis_module
  translateStats :: jsval
  analyzeStats :: jsval
  now_iso :: string

record next_response =
  json :: jsval
  http_status :: nat

definition GET :: "route_env \<Rightarrow> request \<Rightarrow> next_response" where
  "GET env req =
     (let secret = env_value (process_env env ''HEALTHCHECK_SECRET'');
          tok = header_value (headers_get req ''x-healthcheck-token'');
          isAuthorized = js_truthy (js_and (js_and secret tok) (JBool (tok = secret)))
      in if \<not> js_truthy secret \<or> \<not> isAuthorized
         then \<lparr>json = JObj [(''status'', JStr ''ok'')], http_status = 200\<rparr>
         else \<lparr>json = JObj [(''status'', JStr ''ok''),
                            (''redisEnabled'', JBool (hasRedisConfig (redis env))),
                            (''rateLimiters'', JObj [(''translate'', translateStats env),
                                                     (''analyze'', analyzeStats env)]),
                            (''timestamp'', JStr (now_iso env))],
               http_status = 200\<rparr>)"

text \<open>Whether a response body is an object with the given member.\<close>

definition has_field :: "string \<Rightarrow> jsval \<Rightarrow> bool" where
  "has_field k v = (case v of JObj kvs \<Rightarrow> map_of kvs k \<noteq> None | _ \<Rightarrow> False)"

section \<open>The rate limiter\<close>

text \<open>
  The rate-limit module (\<open>shared/lib/rateLimit\<close>, which the health-check route imports)
  is not among the source files. Its admission check is therefore taken from the
  specification, section 4.4: per identity and bucket a window with its start and a
  count, and a configuration with the limit and the window length in seconds.
\<close>

record RateWindow =
  windowStart :: int
  count :: nat

record limiter_config =
  limit :: nat
  windowLengthSeconds :: int

datatype decision = Allow | Deny int

type_synonym limiter_state = "(string \<times> string) \<rightharpoonup> RateWindow"

text \<open>
  Modelled from the spec: the decision of the missing \<open>check\<close>. A count up to the
  limit is allowed; a count above it is denied with
  \<open>retryAfter = windowLengthSeconds - (now - windowStart)\<close>.
\<close>

definition decide :: "limiter_config \<Rightarrow> int \<Rightarrow> RateWindow \<Rightarrow> decision" where
  "decide cfg now win =
     (if count win \<le> limit cfg then Allow
      else Deny (windowLengthSeconds cfg - (now - windowStart win)))"

text \<open>
  Modelled from the spec: the missing \<open>check\<close> of the rate limiter, as the state machine
  of section 4.4. With no window (uninitialised), or with an expired one
  (\<open>now - windowStart \<ge> windowLengthSeconds\<close>), the request opens a window with count 1
  starting now; in an active window it increments the count. The decision compares the
  new count with the limit. With the remote-store backend the increment and the check
  are one atomic step at the store, so a run of requests is a sequence of such steps.
\<close>

definition check ::
  "limiter_config \<Rightarrow> string \<Rightarrow> string \<Rightarrow> int \<Rightarrow> limiter_state \<Rightarrow> decision \<times> limiter_state" where
  "check cfg identity bucket now st =
     (let fresh = \<lparr>windowStart = now, count = 1\<rparr>;
          win = (case st (identity, bucket) of
                   None \<Rightarrow> fresh
                 | Some w \<Rightarrow>
                     if now - windowStart w < windowLengthSeconds cfg
                     then w\<lparr>count := count w + 1\<rparr>
                     else fresh)
      in (decide cfg now win, st((identity, bucket) \<mapsto> win)))"

text \<open>A run of requests of one identity at the given times, each on the state the previous one left.\<close>

fun checks ::
  "limiter_config \<Rightarrow> string \<Rightarrow> string \<Rightarrow> int list \<Rightarrow> limiter_state \<Rightarrow> decision list" where
  "checks cfg identity bucket [] st = []"
| "checks cfg identity bucket (now # later) st =
     (case check cfg identity bucket now st of
        (d, st') \<Rightarrow> d # checks cfg identity bucket later st')"

section \<open>Test doubles for the scenarios\<close>

text \<open>
  The scenarios run the code against stand-ins for the platform: a JSON printer with a
  parser that recognises the texts of a given list of values, a key-value store speaking
  the pipeline protocol, a server with one canned reply, and a wrapper that records every
  request handed to \<open>fetch\<close>.
\<close>

definition escape_char :: "char \<Rightarrow> string" where
  "escape_char c = (if c = CHR 0x22 \<or> c = CHR 0x5C then [CHR 0x5C, c] else [c])"

definition quoted :: "string \<Rightarrow> string" where
  "quoted s = CHR 0x22 # concat (map escape_char s) @ [CHR 0x22]"

fun commas :: "string list \<Rightarrow> string" where
  "commas [] = []"
| "commas [x] = x"
| "commas (x # y # r) = x @ '','' @ commas (y # r)"

fun show_json :: "jsval \<Rightarrow> string" where
  "show_json JUndefined = ''null''"
| "show_json JNull = ''null''"
| "show_json (JBool b) = (if b then ''true'' else ''false'')"
| "show_json (JNum n) = int_digits n"
| "show_json (JStr s) = quoted s"
| "show_json (JArr xs) = ''['' @ commas (map show_json xs) @ '']''"
| "show_json (JObj kvs) =
     ''{'' @ commas (map (\<lambda>kv. quoted (fst kv) @ '':'' @ show_json (snd kv)) kvs) @ ''}''"

definition stringify_double :: "jsval \<Rightarrow> string option" where
  "stringify_double v = (if v = JUndefined then None else Some (show_json v))"

definition parse_among :: "jsval list \<Rightarrow> string \<Rightarrow> error + jsval" where
  "parse_among known s =
     (case find (\<lambda>v. show_json v = s) known of
        None \<Rightarrow> Inl (SyntaxError ''Unexpected token'')
      | Some v \<Rightarrow> Inr v)"

text \<open>The store: keys to string values, newest binding first.\<close>

type_synonym store = "(string \<times> string) list"

fun string_of :: "jsval \<Rightarrow> string option" where
  "string_of (JStr s) = Some s"
| "string_of _ = None"

definition positive_decimal :: "string \<Rightarrow> bool" where
  "positive_decimal s =
     (s \<noteq> [] \<and> list_all (\<lambda>c. c \<in> set ''0123456789'') s \<and> \<not> list_all (\<lambda>c. c = CHR ''0'') s)"

definition exec_command :: "jsval \<Rightarrow> store \<Rightarrow> jsval \<times> store" where
  "exec_command cmd st =
     (case cmd of
        JArr ws \<Rightarrow>
          (case map string_of ws of
             [Some c, Some k] \<Rightarrow>
               if c = ''GET''
               then (JObj [(''result'', case map_of st k of None \<Rightarrow> JNull | Some v \<Rightarrow> JStr v)], st)
               else (JObj [(''error'', JStr ''ERR unknown command'')], st)
           | [Some c, Some k, Some v, Some ex, Some secs] \<Rightarrow>
               if c = ''SET'' \<and> ex = ''EX'' \<and> positive_decimal secs
               then (JObj [(''result'', JStr ''OK'')], (k, v) # st)
               else (JObj [(''error'', JStr ''ERR syntax error'')], st)
           | _ \<Rightarrow> (JObj [(''error'', JStr ''ERR unknown command'')], st))
      | _ \<Rightarrow> (JObj [(''error'', JStr ''ERR failed to parse command'')], st))"

fun exec_commands :: "jsval list \<Rightarrow> store \<Rightarrow> jsval list \<times> store" where
  "exec_commands [] st = ([], st)"
| "exec_commands (c # cs) st =
     (case exec_command c st of
        (r, st') \<Rightarrow> (case exec_commands cs st' of (rs, st'') \<Rightarrow> (r # rs, st'')))"

definition store_fetch ::
  "(string \<Rightarrow> error + jsval) \<Rightarrow> (jsval \<Rightarrow> string option) \<Rightarrow> string \<Rightarrow> string
     \<Rightarrow> http_request \<Rightarrow> store \<Rightarrow> fetch_result \<times> store" where
  "store_fetch parse stringify endpoint secret req st =
     (if url req \<noteq> endpoint @ ''/pipeline'' \<or> http_method req \<noteq> ''POST''
      then (Fulfilled \<lparr>status = 404, response_text = ''Not Found''\<rparr>, st)
      else if map_of (headers req) ''Authorization'' \<noteq> Some (''Bearer '' @ secret)
      then (Fulfilled \<lparr>status = 401, response_text = ''Unauthorized''\<rparr>, st)
      else
        (case body req of
           None \<Rightarrow> (Fulfilled \<lparr>status = 400, response_text = ''Bad Request''\<rparr>, st)
         | Some b \<Rightarrow>
             (case parse b of
                Inr (JArr cmds) \<Rightarrow>
                  (case exec_commands cmds st of
                     (results, st') \<Rightarrow>
                       (Fulfilled \<lparr>status = 200,
                                   response_text = (case stringify (JArr results) of
                                                      None \<Rightarrow> [] | Some t \<Rightarrow> t)\<rparr>, st'))
              | _ \<Rightarrow> (Fulfilled \<lparr>status = 400, response_text = ''Bad Request''\<rparr>, st))))"

definition canned_fetch :: "nat \<Rightarrow> string \<Rightarrow> http_request \<Rightarrow> 'w \<Rightarrow> fetch_result \<times> 'w" where
  "canned_fetch code reply req w = (Fulfilled \<lparr>status = code, response_text = reply\<rparr>, w)"

definition logged ::
  "(http_request \<Rightarrow> 'w \<Rightarrow> fetch_result \<times> 'w)
     \<Rightarrow> http_request \<Rightarrow> http_request list \<times> 'w \<Rightarrow> fetch_result \<times> (http_request list \<times> 'w)" where
  "logged f req lw = (case f req (snd lw) of (r, w') \<Rightarrow> (r, (fst lw @ [req], w')))"

text \<open>Scenario B of the specification, with an ASCII arrow in the raw key.\<close>

definition scenario_module :: redis_module where
  "scenario_module =
     load_redis_module
       [''UPSTASH_REDIS_REST_URL'' \<mapsto> ''https://store.example'',
        ''UPSTASH_REDIS_REST_TOKEN'' \<mapsto> ''t0ken'']"

definition scenario_value :: jsval where
  "scenario_value = JObj [(''text'', JStr ''hola'')]"

definition scenario_key :: string where
  "scenario_key = ''translate:6451bc036a0f7d35b7dfada3d9afa18d0842c1022b8cccab7bf5f33e506ffa49''"

definition scenario_known :: "jsval list" where
  "scenario_known =
     [scenario_value,
      command_payload [[TStr ''SET'', TStr scenario_key, TStr (show_json scenario_value),
                        TStr ''EX'', TNum 3600]],
      command_payload [[TStr ''GET'', TStr scenario_key]],
      JArr [JObj [(''result'', JStr ''OK'')]],
      JArr [JObj [(''result'', JStr (show_json scenario_value))]],
      JArr [JObj [(''result'', scenario_value)]],
      JArr [JObj [(''result'', JNull)]],
      JArr [JObj []],
      JArr []]"

definition scenario_runtime :: "(http_request \<Rightarrow> 'w \<Rightarrow> fetch_result \<times> 'w) \<Rightarrow> 'w runtime" where
  "scenario_runtime f =
     \<lparr>JSON_parse = parse_among scenario_known, JSON_stringify = stringify_double, fetch = f\<rparr>"

definition scenario_store :: "http_request \<Rightarrow> store \<Rightarrow> fetch_result \<times> store" where
  "scenario_store =
     store_fetch (parse_among scenario_known) stringify_double ''https://store.example'' ''t0ken''"

text \<open>The health-check route: an environment with the given secret and a request with the given token.\<close>

definition demo_env :: "string option \<Rightarrow> route_env" where
  "demo_env secret =
     \<lparr>process_env = (\<lambda>k. if k = ''HEALTHCHECK_SECRET'' then secret else None),
      redis = \<lparr>REDIS_URL = None, REDIS_TOKEN = None\<rparr>,
      translateStats = JObj [(''activeIdentities'', JNum 2), (''limit'', JNum 5),
                             (''windowLengthSeconds'', JNum 60)],
      analyzeStats = JObj [(''activeIdentities'', JNum 0), (''limit'', JNum 3),
                           (''windowLengthSeconds'', JNum 60)],
      now_iso = ''2026-01-01T00:00:00.000Z''\<rparr>"

definition demo_request :: "string option \<Rightarrow> request" where
  "demo_request tok = \<lparr>headers_get = (\<lambda>h. if h = ''x-healthcheck-token'' then tok else None)\<rparr>"

text \<open>
  The condition of the health-check route in the words of the specification: a secret is
  configured (set and not empty) and the request's token header equals it.
\<close>

definition presents_secret :: "route_env \<Rightarrow> request \<Rightarrow> bool" where
  "presents_secret env req =
     (case process_env env ''HEALTHCHECK_SECRET'' of
        None \<Rightarrow> False
      | Some s \<Rightarrow> s \<noteq> [] \<and> headers_get req ''x-healthcheck-token'' = Some s)"

text \<open>Scenario A of the specification: five requests allowed per sixty seconds.\<close>

definition scenario_limiter :: limiter_config where
  "scenario_limiter = \<lparr>limit = 5, windowLengthSeconds = 60\<rparr>"

section \<open>The configuration gate\<close>

lemma js_truthy_env_value: "js_truthy (env_value v) \<longleftrightarrow> (\<exists>s. v = Some s \<and> s \<noteq> [])"
  by (cases v) (simp_all add: env_value_def)

lemma hasRedisConfig_alt:
  "hasRedisConfig m \<longleftrightarrow> js_truthy (env_value (REDIS_URL m)) \<and> js_truthy (env_value (REDIS_TOKEN m))"
  by (simp add: hasRedisConfig_def js_and_def)

text \<open>
  C7. \<open>hasRedisConfig\<close> is true exactly when both environment values, the store URL and
  the token, were set and not empty when the module was loaded. It reads the two captured
  constants only: a later change of the process environment (here the environment the
  route handler sees at request time) does not change the answer.
\<close>

theorem hasRedisConfig_iff_both_present:
  "(hasRedisConfig (load_redis_module env) \<longleftrightarrow>
      (\<exists>u t. env ''UPSTASH_REDIS_REST_URL'' = Some u \<and> u \<noteq> [] \<and>
             env ''UPSTASH_REDIS_REST_TOKEN'' = Some t \<and> t \<noteq> []))
   \<and> hasRedisConfig (redis (renv\<lparr>process_env := env'\<rparr>)) = hasRedisConfig (redis renv)"
  by (auto simp: hasRedisConfig_alt js_truthy_env_value load_redis_module_def)

theorem hasRedisConfig_iff_both_present_witness:
  "hasRedisConfig scenario_module
   \<and> \<not> hasRedisConfig (load_redis_module [''UPSTASH_REDIS_REST_URL'' \<mapsto> ''https://store.example'',
                                            ''UPSTASH_REDIS_REST_TOKEN'' \<mapsto> ''''])
   \<and> \<not> hasRedisConfig (load_redis_module [''UPSTASH_REDIS_REST_TOKEN'' \<mapsto> ''t0ken''])"
  using hasRedisConfig_iff_both_present
          [where env = "[''UPSTASH_REDIS_REST_URL'' \<mapsto> ''https://store.example'',
                         ''UPSTASH_REDIS_REST_TOKEN'' \<mapsto> ''t0ken'']"]
        hasRedisConfig_iff_both_present
          [where env = "[''UPSTASH_REDIS_REST_URL'' \<mapsto> ''https://store.example'',
                         ''UPSTASH_REDIS_REST_TOKEN'' \<mapsto> '''']"]
        hasRedisConfig_iff_both_present
          [where env = "[''UPSTASH_REDIS_REST_TOKEN'' \<mapsto> ''t0ken'']"]
  by (simp add: scenario_module_def)

lemma scenario_configured: "hasRedisConfig scenario_module"
  by (simp add: hasRedisConfig_alt scenario_module_def load_redis_module_def env_value_def)

section \<open>The cache key\<close>

lemma length_sha_round: "length (sha_round s kw) = 8"
  by (simp add: sha_round_def Let_def)

lemma length_foldl_sha_round: "length s = 8 \<Longrightarrow> length (foldl sha_round s kws) = 8"
  by (induction kws arbitrary: s) (simp_all add: length_sha_round)

lemma length_compress: "length h = 8 \<Longrightarrow> length (compress h blk) = 8"
  by (simp add: compress_def length_foldl_sha_round)

lemma length_foldl_compress: "length h = 8 \<Longrightarrow> length (foldl compress h bs) = 8"
  by (induction bs arbitrary: h) (simp_all add: length_compress)

lemma length_sha256: "length (sha256 m) = 8"
  by (simp add: sha256_def length_foldl_compress H0_def)

lemma length_hex32: "length (hex32 w) = 8"
  by (simp add: hex32_def)

lemma length_concat_hex32: "length (concat (map hex32 ws)) = 8 * length ws"
  by (induction ws) (simp_all add: length_hex32)

lemma length_sha256_hex: "length (sha256_hex s) = 64"
  by (simp add: sha256_hex_def length_concat_hex32 length_sha256)

lemma lower_hex_hexdigit: "lower_hex (hexdigit n)"
proof -
  have "n mod 16 < length ''0123456789abcdef''" by simp
  then have "''0123456789abcdef'' ! (n mod 16) \<in> set ''0123456789abcdef''"
    by (rule nth_mem)
  then show ?thesis by (simp only: lower_hex_def hexdigit_def)
qed

lemma lower_hex_hex32: "list_all lower_hex (hex32 w)"
  by (simp add: hex32_def list_all_iff lower_hex_hexdigit)

lemma lower_hex_sha256_hex: "list_all lower_hex (sha256_hex s)"
  by (simp add: sha256_hex_def list_all_iff) (use lower_hex_hex32 in \<open>auto simp: list_all_iff\<close>)

text \<open>The digest of the raw key of scenario B, as \<open>sha256sum\<close> prints it.\<close>

lemma scenario_key_eq: "buildHashedCacheKey ''translate'' ''en->es:hello'' = scenario_key"
  unfolding scenario_key_def by code_simp

text \<open>
  C3. The cache key is the prefix, a colon and the SHA-256 digest of the raw key in
  lowercase hexadecimal, always 64 characters. The key is a function of the prefix and
  the raw key alone, so equal arguments give the same string.
\<close>

theorem buildHashedCacheKey_shape:
  "buildHashedCacheKey prefix rawKey = prefix @ '':'' @ sha256_hex rawKey
   \<and> length (sha256_hex rawKey) = 64
   \<and> list_all lower_hex (sha256_hex rawKey)"
  by (simp add: buildHashedCacheKey_def length_sha256_hex lower_hex_sha256_hex)

theorem buildHashedCacheKey_shape_witness:
  "buildHashedCacheKey ''translate'' ''en->es:hello''
     = ''translate:6451bc036a0f7d35b7dfada3d9afa18d0842c1022b8cccab7bf5f33e506ffa49''
   \<and> length (sha256_hex ''en->es:hello'') = 64"
  using buildHashedCacheKey_shape [of "''translate''" "''en->es:hello''"] scenario_key_eq
  by (simp add: scenario_key_def)

section \<open>The remote store client\<close>

lemma redisFetch_unconfigured:
  "\<not> hasRedisConfig m \<Longrightarrow> redisFetch m rt payload w = (Inl (Error ''Redis config missing.''), w)"
  by (auto simp: redisFetch_def hasRedisConfig_alt)

lemma redisFetch_configured:
  "hasRedisConfig m \<Longrightarrow>
   redisFetch m rt payload w =
     (case fetch rt (pipeline_request m (JSON_stringify rt payload)) w of
        (Rejected e, w') \<Rightarrow> (Inl e, w')
      | (Fulfilled response, w') \<Rightarrow>
          if \<not> ok response
          then (Inl (Error (''Redis request failed: '' @ nat_digits (status response)
                             @ '' '' @ response_text response)), w')
          else (JSON_parse rt (response_text response), w'))"
  by (simp add: redisFetch_def hasRedisConfig_alt)

lemmas scenario_simps =
  scenario_module_def load_redis_module_def scenario_runtime_def scenario_store_def
  scenario_known_def scenario_value_def scenario_key_def
  store_fetch_def canned_fetch_def logged_def exec_command_def positive_decimal_def
  parse_among_def stringify_double_def quoted_def escape_char_def
  command_payload_def pipeline_request_def template_slot_def
  redisPipeline_def redisFetch_def env_value_def ok_def
  int_digits_def nat_digits.simps digit_char_def

text \<open>
  C5. When the store answers a pipeline call with a status outside 200..299,
  \<open>redisPipeline\<close> throws an error whose message is \<open>Redis request failed:\<close> followed by
  the status code and the text of the response. An HTTP response presupposes that the
  request was sent, so the module is configured. With every request handed to \<open>fetch\<close>
  recorded, the call adds exactly one request to the record, whatever the outcome: there
  is no retry.
\<close>

theorem redisPipeline_transport_failure:
  assumes cfg: "hasRedisConfig m"
    and net: "fetch rt = logged f"
  shows "(\<forall>response w'.
            f (pipeline_request m (JSON_stringify rt (command_payload commands))) w
              = (Fulfilled response, w') \<and> \<not> ok response \<longrightarrow>
            redisPipeline m rt commands (log, w) =
              (Inl (Error (''Redis request failed: '' @ nat_digits (status response)
                           @ '' '' @ response_text response)),
               (log @ [pipeline_request m (JSON_stringify rt (command_payload commands))], w')))
         \<and> fst (snd (redisPipeline m rt commands (log, w))) =
             log @ [pipeline_request m (JSON_stringify rt (command_payload commands))]"
  by (simp add: redisPipeline_def redisFetch_configured [OF cfg] net logged_def
           split: prod.split fetch_result.split)

theorem redisPipeline_transport_failure_witness:
  "hasRedisConfig scenario_module
   \<and> \<not> ok \<lparr>status = 500, response_text = ''Internal Server Error''\<rparr>
   \<and> redisPipeline scenario_module
         (scenario_runtime (logged (canned_fetch 500 ''Internal Server Error'')))
         [[TStr ''GET'', TStr scenario_key]] ([], ())
       = (Inl (Error ''Redis request failed: 500 Internal Server Error''),
          ([pipeline_request scenario_module
              (stringify_double (command_payload [[TStr ''GET'', TStr scenario_key]]))], ()))"
proof -
  have net: "fetch (scenario_runtime (logged (canned_fetch 500 ''Internal Server Error'')))
               = logged (canned_fetch 500 ''Internal Server Error'')"
    by (simp add: scenario_runtime_def)
  have reply: "canned_fetch 500 ''Internal Server Error''
                 (pipeline_request scenario_module
                    (JSON_stringify (scenario_runtime (logged (canned_fetch 500 ''Internal Server Error'')))
                       (command_payload [[TStr ''GET'', TStr scenario_key]]))) ()
               = (Fulfilled \<lparr>status = 500, response_text = ''Internal Server Error''\<rparr>, ())"
    by (simp add: canned_fetch_def)
  have bad: "\<not> ok \<lparr>status = 500, response_text = ''Internal Server Error''\<rparr>"
    by (simp add: ok_def)
  have digits: "nat_digits 500 = ''500''"
    by (simp add: nat_digits.simps digit_char_def)
  let ?R = "\<lparr>status = 500, response_text = ''Internal Server Error''\<rparr>"
  let ?rt = "scenario_runtime (logged (canned_fetch 500 ''Internal Server Error''))
               :: (http_request list \<times> unit) runtime"
  let ?req = "pipeline_request scenario_module
                (JSON_stringify ?rt (command_payload [[TStr ''GET'', TStr scenario_key]]))"
  from redisPipeline_transport_failure
         [OF scenario_configured net, of "[[TStr ''GET'', TStr scenario_key]]" "()" "[]"]
  have "\<forall>response w'.
          canned_fetch 500 ''Internal Server Error'' ?req () = (Fulfilled response, w')
            \<and> \<not> ok response \<longrightarrow>
          redisPipeline scenario_module ?rt [[TStr ''GET'', TStr scenario_key]] ([], ()) =
            (Inl (Error (''Redis request failed: '' @ nat_digits (status response)
                         @ '' '' @ response_text response)),
             ([] @ [?req], w'))"
    by (rule conjunct1)
  with reply bad
  have "redisPipeline scenario_module ?rt [[TStr ''GET'', TStr scenario_key]] ([], ()) =
          (Inl (Error (''Redis request failed: '' @ nat_digits (status ?R)
                       @ '' '' @ response_text ?R)),
           ([] @ [?req], ()))"
    by blast
  with digits scenario_configured bad show ?thesis
    by (simp add: scenario_runtime_def)
qed

lemma pipeline_miss:
  "redisPipeline scenario_module (scenario_runtime scenario_store) [[TStr ''GET'', TStr scenario_key]] []
     = (Inr (JArr [JObj [(''result'', JNull)]]), [])"
  by (simp add: scenario_simps)

lemma pipeline_hit:
  "redisPipeline scenario_module (scenario_runtime scenario_store) [[TStr ''GET'', TStr scenario_key]]
       [(scenario_key, show_json scenario_value)]
     = (Inr (JArr [JObj [(''result'', JStr (show_json scenario_value))]]),
        [(scenario_key, show_json scenario_value)])"
  by (simp add: scenario_simps)

lemma pipeline_structured:
  "redisPipeline scenario_module
       (scenario_runtime (canned_fetch 200 (show_json (JArr [JObj [(''result'', scenario_value)]]))))
       [[TStr ''GET'', TStr scenario_key]] ()
     = (Inr (JArr [JObj [(''result'', scenario_value)]]), ())"
  by (simp add: scenario_simps)

lemma pipeline_empty_array:
  "redisPipeline scenario_module (scenario_runtime (canned_fetch 200 ''[]''))
       [[TStr ''GET'', TStr scenario_key]] ()
     = (Inr (JArr []), ())"
  by (simp add: scenario_simps)

lemma pipeline_no_result_field:
  "redisPipeline scenario_module (scenario_runtime (canned_fetch 200 ''[{}]''))
       [[TStr ''GET'', TStr scenario_key]] ()
     = (Inr (JArr [JObj []]), ())"
  by (simp add: scenario_simps)

text \<open>
  C6. \<open>redisGetJson\<close> reads the \<open>result\<close> of the first entry of the pipeline response:
  it returns \<open>null\<close> when that result is \<open>null\<close>, the JSON parse of the result when it
  is a string (or the parser's error), and the result itself when it is any other value
  the store delivered.
\<close>

theorem redisGetJson_by_result:
  assumes pipe: "redisPipeline m rt [[TStr ''GET'', TStr key]] w = (Inr results, w')"
    and first: "js_index0 results = Inr entry"
  shows "(js_opt_result entry = JNull \<longrightarrow> redisGetJson m rt key w = (Inr JNull, w'))
       \<and> (\<forall>s. js_opt_result entry = JStr s \<longrightarrow> redisGetJson m rt key w = (JSON_parse rt s, w'))
       \<and> (js_opt_result entry \<noteq> JNull \<and> js_opt_result entry \<noteq> JUndefined
            \<and> (\<forall>s. js_opt_result entry \<noteq> JStr s) \<longrightarrow>
              redisGetJson m rt key w = (Inr (js_opt_result entry), w'))"
  using pipe first by (cases "js_opt_result entry") (simp_all add: redisGetJson_def Let_def)

theorem redisGetJson_by_result_witness:
  "redisGetJson scenario_module (scenario_runtime scenario_store) scenario_key [] = (Inr JNull, [])
   \<and> redisGetJson scenario_module (scenario_runtime scenario_store) scenario_key
         [(scenario_key, show_json scenario_value)]
       = (Inr scenario_value, [(scenario_key, show_json scenario_value)])
   \<and> redisGetJson scenario_module
         (scenario_runtime (canned_fetch 200 (show_json (JArr [JObj [(''result'', scenario_value)]]))))
         scenario_key ()
       = (Inr scenario_value, ())"
proof -
  have i1: "js_index0 (JArr [JObj [(''result'', JNull)]]) = Inr (JObj [(''result'', JNull)])"
    by simp
  have i2: "js_index0 (JArr [JObj [(''result'', JStr (show_json scenario_value))]])
              = Inr (JObj [(''result'', JStr (show_json scenario_value))])"
    by simp
  have i3: "js_index0 (JArr [JObj [(''result'', scenario_value)]])
              = Inr (JObj [(''result'', scenario_value)])"
    by simp
  have parse: "JSON_parse (scenario_runtime scenario_store) (show_json scenario_value)
                 = Inr scenario_value"
    by (simp add: scenario_simps)
  from redisGetJson_by_result [OF pipeline_miss i1]
  have a: "redisGetJson scenario_module (scenario_runtime scenario_store) scenario_key []
             = (Inr JNull, [])"
    by simp
  from redisGetJson_by_result [OF pipeline_hit i2] parse
  have b: "redisGetJson scenario_module (scenario_runtime scenario_store) scenario_key
             [(scenario_key, show_json scenario_value)]
           = (Inr scenario_value, [(scenario_key, show_json scenario_value)])"
    by simp
  from redisGetJson_by_result [OF pipeline_structured i3]
  have c: "redisGetJson scenario_module
             (scenario_runtime (canned_fetch 200 (show_json (JArr [JObj [(''result'', scenario_value)]]))))
             scenario_key ()
           = (Inr scenario_value, ())"
    by (simp add: scenario_value_def)
  from a b c show ?thesis by simp
qed

text \<open>
  C10. When the pipeline response is an empty array, or its first entry is an object with
  no \<open>result\<close> member, \<open>redisGetJson\<close> returns \<open>null\<close> and does not fail.
\<close>

theorem redisGetJson_degenerate_response:
  assumes pipe: "redisPipeline m rt [[TStr ''GET'', TStr key]] w = (Inr results, w')"
    and degenerate: "results = JArr [] \<or> (\<exists>kvs rest. results = JArr (JObj kvs # rest)
                                             \<and> map_of kvs ''result'' = None)"
  shows "redisGetJson m rt key w = (Inr JNull, w')"
  using pipe degenerate by (auto simp: redisGetJson_def Let_def)

theorem redisGetJson_degenerate_response_witness:
  "redisGetJson scenario_module (scenario_runtime (canned_fetch 200 ''[]'')) scenario_key ()
     = (Inr JNull, ())
   \<and> redisGetJson scenario_module (scenario_runtime (canned_fetch 200 ''[{}]'')) scenario_key ()
     = (Inr JNull, ())"
proof -
  have d1: "JArr [] = JArr [] \<or> (\<exists>kvs rest. JArr [] = JArr (JObj kvs # rest)
                                        \<and> map_of kvs ''result'' = None)"
    by simp
  have d2: "JArr [JObj []] = JArr [] \<or> (\<exists>kvs rest. JArr [JObj []] = JArr (JObj kvs # rest)
                                                \<and> map_of kvs ''result'' = None)"
    by simp
  from redisGetJson_degenerate_response [OF pipeline_empty_array d1]
       redisGetJson_degenerate_response [OF pipeline_no_result_field d2]
  show ?thesis by simp
qed

section \<open>The hashed cache\<close>

lemma getRedisCachedJson_total:
  "\<exists>r w'. getRedisCachedJson m rt prefix rawKey w = (Inr r, w')"
  by (simp add: getRedisCachedJson_def split: prod.split sum.split)

lemma setRedisCachedJson_total:
  "\<exists>w'. setRedisCachedJson m rt prefix rawKey val ttl w = (Inr (), w')"
  by (simp add: setRedisCachedJson_def split: prod.split sum.split)

text \<open>
  C1. The hashed cache fails open. Without configuration, \<open>getRedisCachedJson\<close> returns
  \<open>null\<close> and \<open>setRedisCachedJson\<close> returns, both leaving the world as it was: no
  request is made. When the remote get or set throws, whatever the error, the get returns
  \<open>null\<close> and the set returns normally. In every case both return a value: no error
  reaches the caller.
\<close>

theorem hashed_cache_fails_open:
  "(\<not> hasRedisConfig m \<longrightarrow>
      getRedisCachedJson m rt prefix rawKey w = (Inr JNull, w)
      \<and> setRedisCachedJson m rt prefix rawKey val ttl w = (Inr (), w))
   \<and> (\<forall>e w'. redisGetJson m rt (buildHashedCacheKey prefix rawKey) w = (Inl e, w') \<longrightarrow>
         getRedisCachedJson m rt prefix rawKey w = (Inr JNull, w'))
   \<and> (\<forall>e w'. redisSetJson m rt (buildHashedCacheKey prefix rawKey) val ttl w = (Inl e, w') \<longrightarrow>
         setRedisCachedJson m rt prefix rawKey val ttl w = (Inr (), w'))
   \<and> (\<exists>r w'. getRedisCachedJson m rt prefix rawKey w = (Inr r, w'))
   \<and> (\<exists>w'. setRedisCachedJson m rt prefix rawKey val ttl w = (Inr (), w'))"
proof (intro conjI allI impI)
  assume "\<not> hasRedisConfig m"
  then show "getRedisCachedJson m rt prefix rawKey w = (Inr JNull, w)"
    and "setRedisCachedJson m rt prefix rawKey val ttl w = (Inr (), w)"
    by (simp_all add: getRedisCachedJson_def setRedisCachedJson_def)
next
  fix e w'
  assume thrown: "redisGetJson m rt (buildHashedCacheKey prefix rawKey) w = (Inl e, w')"
  show "getRedisCachedJson m rt prefix rawKey w = (Inr JNull, w')"
  proof (cases "hasRedisConfig m")
    case True
    with thrown show ?thesis by (simp add: getRedisCachedJson_def)
  next
    case False
    with thrown have "w' = w"
      by (simp add: redisGetJson_def redisPipeline_def redisFetch_unconfigured)
    with False show ?thesis by (simp add: getRedisCachedJson_def)
  qed
next
  fix e w'
  assume thrown: "redisSetJson m rt (buildHashedCacheKey prefix rawKey) val ttl w = (Inl e, w')"
  show "setRedisCachedJson m rt prefix rawKey val ttl w = (Inr (), w')"
  proof (cases "hasRedisConfig m")
    case True
    with thrown show ?thesis by (simp add: setRedisCachedJson_def)
  next
    case False
    with thrown have "w' = w"
      by (simp add: redisSetJson_def redisPipeline_def redisFetch_unconfigured Let_def)
    with False show ?thesis by (simp add: setRedisCachedJson_def)
  qed
next
  show "\<exists>r w'. getRedisCachedJson m rt prefix rawKey w = (Inr r, w')"
    by (rule getRedisCachedJson_total)
  show "\<exists>w'. setRedisCachedJson m rt prefix rawKey val ttl w = (Inr (), w')"
    by (rule setRedisCachedJson_total)
qed

text \<open>Scenario C: the store answers every call with HTTP 500.\<close>

lemma all_fail_get:
  "redisGetJson scenario_module (scenario_runtime (canned_fetch 500 ''Internal Server Error''))
      (buildHashedCacheKey ''translate'' ''en->es:hello'') ()
    = (Inl (Error ''Redis request failed: 500 Internal Server Error''), ())"
  by (simp add: redisGetJson_def redisPipeline_def redisFetch_configured [OF scenario_configured]
                scenario_runtime_def canned_fetch_def ok_def nat_digits.simps digit_char_def)

lemma all_fail_set:
  "redisSetJson scenario_module (scenario_runtime (canned_fetch 500 ''Internal Server Error''))
      (buildHashedCacheKey ''translate'' ''en->es:hello'') scenario_value 3600 ()
    = (Inl (Error ''Redis request failed: 500 Internal Server Error''), ())"
  by (simp add: redisSetJson_def redisPipeline_def redisFetch_configured [OF scenario_configured]
                scenario_runtime_def canned_fetch_def ok_def nat_digits.simps digit_char_def Let_def)

theorem hashed_cache_fails_open_witness:
  "\<not> hasRedisConfig (load_redis_module Map.empty)
   \<and> getRedisCachedJson (load_redis_module Map.empty) (scenario_runtime (logged scenario_store))
        ''translate'' ''en->es:hello'' ([], []) = (Inr JNull, ([], []))
   \<and> setRedisCachedJson (load_redis_module Map.empty) (scenario_runtime (logged scenario_store))
        ''translate'' ''en->es:hello'' scenario_value 3600 ([], []) = (Inr (), ([], []))
   \<and> getRedisCachedJson scenario_module (scenario_runtime (canned_fetch 500 ''Internal Server Error''))
        ''translate'' ''en->es:hello'' () = (Inr JNull, ())
   \<and> setRedisCachedJson scenario_module (scenario_runtime (canned_fetch 500 ''Internal Server Error''))
        ''translate'' ''en->es:hello'' scenario_value 3600 () = (Inr (), ())"
proof -
  have off: "\<not> hasRedisConfig (load_redis_module Map.empty)"
    by (simp add: hasRedisConfig_alt load_redis_module_def env_value_def)
  from hashed_cache_fails_open
         [of "load_redis_module Map.empty" "scenario_runtime (logged scenario_store)"
             "''translate''" "''en->es:hello''" "([], [])" scenario_value 3600] off
  have a: "getRedisCachedJson (load_redis_module Map.empty) (scenario_runtime (logged scenario_store))
             ''translate'' ''en->es:hello'' ([], []) = (Inr JNull, ([], []))
           \<and> setRedisCachedJson (load_redis_module Map.empty) (scenario_runtime (logged scenario_store))
             ''translate'' ''en->es:hello'' scenario_value 3600 ([], []) = (Inr (), ([], []))"
    by blast
  from hashed_cache_fails_open
         [of scenario_module "scenario_runtime (canned_fetch 500 ''Internal Server Error'')"
             "''translate''" "''en->es:hello''" "()" scenario_value 3600]
       all_fail_get all_fail_set
  have b: "getRedisCachedJson scenario_module (scenario_runtime (canned_fetch 500 ''Internal Server Error''))
             ''translate'' ''en->es:hello'' () = (Inr JNull, ())
           \<and> setRedisCachedJson scenario_module (scenario_runtime (canned_fetch 500 ''Internal Server Error''))
             ''translate'' ''en->es:hello'' scenario_value 3600 () = (Inr (), ())"
    by blast
  from off a b show ?thesis by blast
qed

text \<open>
  C4. Cache round trip. Let the module be configured, let the value be JSON-serializable
  (its JSON text parses back to it), and let the store be reachable and keep what it is
  given: it answers the SET call, and answers the GET call for the same key that follows
  with the stored text as the result. Then \<open>setRedisCachedJson\<close> followed by
  \<open>getRedisCachedJson\<close> with the same prefix and raw key returns the value.
\<close>

theorem cache_round_trip:
  assumes cfg: "hasRedisConfig m"
    and ser: "JSON_stringify rt v = Some payload"
    and de: "JSON_parse rt payload = Inr v"
    and stored:
      "fetch rt (pipeline_request m (JSON_stringify rt (command_payload
          [[TStr ''SET'', TStr (buildHashedCacheKey prefix rawKey), TStr payload,
            TStr ''EX'', TNum ttl]]))) w0
        = (Fulfilled r1, w1)"
    and fetched:
      "fetch rt (pipeline_request m (JSON_stringify rt (command_payload
          [[TStr ''GET'', TStr (buildHashedCacheKey prefix rawKey)]]))) w1
        = (Fulfilled r2, w2)"
    and ok2: "ok r2"
    and hit: "JSON_parse rt (response_text r2) = Inr (JArr [JObj [(''result'', JStr payload)]])"
  shows "setRedisCachedJson m rt prefix rawKey v ttl w0 = (Inr (), w1)
         \<and> getRedisCachedJson m rt prefix rawKey w1 = (Inr v, w2)"
proof
  show "setRedisCachedJson m rt prefix rawKey v ttl w0 = (Inr (), w1)"
    using cfg ser stored
    by (simp add: setRedisCachedJson_def redisSetJson_def redisPipeline_def
                  redisFetch_configured [OF cfg] split: sum.split)
  have "redisPipeline m rt [[TStr ''GET'', TStr (buildHashedCacheKey prefix rawKey)]] w1
          = (Inr (JArr [JObj [(''result'', JStr payload)]]), w2)"
    using fetched ok2 hit by (simp add: redisPipeline_def redisFetch_configured [OF cfg])
  then have "redisGetJson m rt (buildHashedCacheKey prefix rawKey) w1 = (Inr v, w2)"
    using de by (simp add: redisGetJson_def Let_def)
  then show "getRedisCachedJson m rt prefix rawKey w1 = (Inr v, w2)"
    using cfg by (simp add: getRedisCachedJson_def)
qed

theorem cache_round_trip_witness:
  "hasRedisConfig scenario_module
   \<and> setRedisCachedJson scenario_module (scenario_runtime scenario_store)
        ''translate'' ''en->es:hello'' scenario_value 3600 []
       = (Inr (), [(scenario_key, show_json scenario_value)])
   \<and> getRedisCachedJson scenario_module (scenario_runtime scenario_store)
        ''translate'' ''en->es:hello'' [(scenario_key, show_json scenario_value)]
       = (Inr scenario_value, [(scenario_key, show_json scenario_value)])"
proof -
  let ?rt = "scenario_runtime scenario_store :: store runtime"
  let ?w1 = "[(scenario_key, show_json scenario_value)]"
  have ser: "JSON_stringify ?rt scenario_value = Some (show_json scenario_value)"
    by (simp add: scenario_runtime_def stringify_double_def scenario_value_def)
  have de: "JSON_parse ?rt (show_json scenario_value) = Inr scenario_value"
    by (simp add: scenario_simps)
  have stored:
    "fetch ?rt (pipeline_request scenario_module (JSON_stringify ?rt (command_payload
        [[TStr ''SET'', TStr (buildHashedCacheKey ''translate'' ''en->es:hello''),
          TStr (show_json scenario_value), TStr ''EX'', TNum 3600]]))) []
      = (Fulfilled \<lparr>status = 200,
                    response_text = show_json (JArr [JObj [(''result'', JStr ''OK'')]])\<rparr>, ?w1)"
    unfolding scenario_key_eq by (simp add: scenario_simps)
  have fetched:
    "fetch ?rt (pipeline_request scenario_module (JSON_stringify ?rt (command_payload
        [[TStr ''GET'', TStr (buildHashedCacheKey ''translate'' ''en->es:hello'')]]))) ?w1
      = (Fulfilled \<lparr>status = 200,
           response_text = show_json (JArr [JObj [(''result'', JStr (show_json scenario_value))]])\<rparr>,
         ?w1)"
    unfolding scenario_key_eq by (simp add: scenario_simps)
  have ok2: "ok \<lparr>status = 200,
           response_text = show_json (JArr [JObj [(''result'', JStr (show_json scenario_value))]])\<rparr>"
    by (simp add: ok_def)
  have hit: "JSON_parse ?rt (response_text \<lparr>status = 200,
           response_text = show_json (JArr [JObj [(''result'', JStr (show_json scenario_value))]])\<rparr>)
         = Inr (JArr [JObj [(''result'', JStr (show_json scenario_value))]])"
    by (simp add: scenario_simps)
  from cache_round_trip [OF scenario_configured ser de stored fetched ok2 hit] scenario_configured
  show ?thesis by simp
qed

section \<open>The health-check route\<close>

lemma GET_cases:
  "GET env req =
     (if presents_secret env req
      then \<lparr>json = JObj [(''status'', JStr ''ok''),
                         (''redisEnabled'', JBool (hasRedisConfig (redis env))),
                         (''rateLimiters'', JObj [(''translate'', translateStats env),
                                                  (''analyze'', analyzeStats env)]),
                         (''timestamp'', JStr (now_iso env))],
            http_status = 200\<rparr>
      else \<lparr>json = JObj [(''status'', JStr ''ok'')], http_status = 200\<rparr>)"
  by (cases "process_env env ''HEALTHCHECK_SECRET''"; cases "headers_get req ''x-healthcheck-token''")
     (auto simp: GET_def Let_def js_and_def env_value_def header_value_def presents_secret_def)

text \<open>
  C8. The handler puts the rate-limiter statistics and the redis flag into its response
  exactly when a secret is configured and the request's \<open>x-healthcheck-token\<close> header
  equals it; then the body carries the statistics of both limiters. Every other request
  gets the body \<open>{status: "ok"}\<close> with status 200 and nothing else.
\<close>

theorem GET_discloses_iff_token_matches:
  "(has_field ''rateLimiters'' (json (GET env req)) \<longleftrightarrow> presents_secret env req)
   \<and> (has_field ''redisEnabled'' (json (GET env req)) \<longleftrightarrow> presents_secret env req)
   \<and> (presents_secret env req \<longrightarrow>
        GET env req =
          \<lparr>json = JObj [(''status'', JStr ''ok''),
                        (''redisEnabled'', JBool (hasRedisConfig (redis env))),
                        (''rateLimiters'', JObj [(''translate'', translateStats env),
                                                 (''analyze'', analyzeStats env)]),
                        (''timestamp'', JStr (now_iso env))],
           http_status = 200\<rparr>)
   \<and> (\<not> presents_secret env req \<longrightarrow>
        GET env req = \<lparr>json = JObj [(''status'', JStr ''ok'')], http_status = 200\<rparr>)"
  by (simp add: GET_cases has_field_def)

theorem GET_discloses_iff_token_matches_witness:
  "presents_secret (demo_env (Some ''s3cret'')) (demo_request (Some ''s3cret''))
   \<and> has_field ''rateLimiters'' (json (GET (demo_env (Some ''s3cret'')) (demo_request (Some ''s3cret''))))
   \<and> \<not> presents_secret (demo_env (Some ''s3cret'')) (demo_request (Some ''guess''))
   \<and> GET (demo_env (Some ''s3cret'')) (demo_request (Some ''guess''))
       = \<lparr>json = JObj [(''status'', JStr ''ok'')], http_status = 200\<rparr>
   \<and> \<not> presents_secret (demo_env (Some ''s3cret'')) (demo_request None)
   \<and> GET (demo_env (Some ''s3cret'')) (demo_request None)
       = \<lparr>json = JObj [(''status'', JStr ''ok'')], http_status = 200\<rparr>"
proof -
  have yes: "presents_secret (demo_env (Some ''s3cret'')) (demo_request (Some ''s3cret''))"
    by (simp add: presents_secret_def demo_env_def demo_request_def)
  have no1: "\<not> presents_secret (demo_env (Some ''s3cret'')) (demo_request (Some ''guess''))"
    by (simp add: presents_secret_def demo_env_def demo_request_def)
  have no2: "\<not> presents_secret (demo_env (Some ''s3cret'')) (demo_request None)"
    by (simp add: presents_secret_def demo_env_def demo_request_def)
  from GET_discloses_iff_token_matches [of "demo_env (Some ''s3cret'')" "demo_request (Some ''s3cret'')"]
       GET_discloses_iff_token_matches [of "demo_env (Some ''s3cret'')" "demo_request (Some ''guess'')"]
       GET_discloses_iff_token_matches [of "demo_env (Some ''s3cret'')" "demo_request None"]
       yes no1 no2
  show ?thesis by blast
qed

text \<open>
  C9. When the secret is unset or empty, every request gets the generic response, whatever
  token it carries (the empty token included) and whatever the rest of the environment:
  any two such responses are equal.
\<close>

theorem GET_without_secret_is_constant:
  assumes "process_env env1 ''HEALTHCHECK_SECRET'' = None
           \<or> process_env env1 ''HEALTHCHECK_SECRET'' = Some []"
    and "process_env env2 ''HEALTHCHECK_SECRET'' = None
         \<or> process_env env2 ''HEALTHCHECK_SECRET'' = Some []"
  shows "GET env1 req1 = GET env2 req2
         \<and> GET env1 req1 = \<lparr>json = JObj [(''status'', JStr ''ok'')], http_status = 200\<rparr>"
  using assms by (auto simp: GET_cases presents_secret_def)

theorem GET_without_secret_is_constant_witness:
  "GET (demo_env (Some [])) (demo_request (Some [])) = GET (demo_env None) (demo_request (Some ''guess''))
   \<and> GET (demo_env (Some [])) (demo_request (Some []))
       = \<lparr>json = JObj [(''status'', JStr ''ok'')], http_status = 200\<rparr>"
proof -
  have h1: "process_env (demo_env (Some [])) ''HEALTHCHECK_SECRET'' = None
            \<or> process_env (demo_env (Some [])) ''HEALTHCHECK_SECRET'' = Some []"
    by (simp add: demo_env_def)
  have h2: "process_env (demo_env None) ''HEALTHCHECK_SECRET'' = None
            \<or> process_env (demo_env None) ''HEALTHCHECK_SECRET'' = Some []"
    by (simp add: demo_env_def)
  show ?thesis
    by (rule GET_without_secret_is_constant [OF h1 h2])
qed

section \<open>The rate limiter\<close>

lemma checks_active_window:
  assumes "st (identity, bucket) = Some win"
    and "\<forall>t\<in>set ts. t - windowStart win < windowLengthSeconds cfg"
    and "ts \<noteq> []"
    and "count win + length ts = limit cfg + 1"
  shows "checks cfg identity bucket ts st =
           replicate (length ts - 1) Allow
           @ [Deny (windowLengthSeconds cfg - (last ts - windowStart win))]"
  using assms
proof (induction ts arbitrary: st win)
  case Nil
  then show ?case by simp
next
  case (Cons t ts)
  let ?win' = "win\<lparr>count := count win + 1\<rparr>"
  let ?st' = "st((identity, bucket) \<mapsto> ?win')"
  have step: "check cfg identity bucket t st = (decide cfg t ?win', ?st')"
    using Cons.prems(1,2) by (simp add: check_def Let_def)
  show ?case
  proof (cases "ts = []")
    case True
    with Cons.prems(4) have "count ?win' = limit cfg + 1" by simp
    then have "decide cfg t ?win' = Deny (windowLengthSeconds cfg - (t - windowStart win))"
      by (simp add: decide_def)
    with step True show ?thesis by simp
  next
    case False
    with Cons.prems(4) have le: "count ?win' \<le> limit cfg"
      by (cases ts) simp_all
    then have d: "decide cfg t ?win' = Allow" by (simp add: decide_def)
    have "checks cfg identity bucket ts ?st' =
            replicate (length ts - 1) Allow
            @ [Deny (windowLengthSeconds cfg - (last ts - windowStart ?win'))]"
      using Cons.prems(2,4) False by (intro Cons.IH) simp_all
    with step d False show ?thesis
      by (cases ts) simp_all
  qed
qed

text \<open>
  C2. Fixed-window rate limiting. Take an identity whose window is uninitialised or
  expired at the first request, and \<open>limit + 1\<close> requests at non-decreasing times that all
  fall inside the window the first one opens. The first \<open>limit\<close> requests are allowed and
  the last is denied with \<open>retryAfter = windowLengthSeconds - (now - windowStart)\<close>,
  which is positive and at most \<open>windowLengthSeconds\<close>.
\<close>

theorem fixed_window_limit_then_deny:
  assumes fresh: "st (identity, bucket) = None \<or>
                  (\<exists>w. st (identity, bucket) = Some w
                       \<and> \<not> t0 - windowStart w < windowLengthSeconds cfg)"
    and len: "length later = limit cfg"
    and ordered: "sorted (t0 # later)"
    and inside: "\<forall>t\<in>set (t0 # later). t - t0 < windowLengthSeconds cfg"
  shows "checks cfg identity bucket (t0 # later) st =
           replicate (limit cfg) Allow
           @ [Deny (windowLengthSeconds cfg - (last (t0 # later) - t0))]
         \<and> 0 < windowLengthSeconds cfg - (last (t0 # later) - t0)
         \<and> windowLengthSeconds cfg - (last (t0 # later) - t0) \<le> windowLengthSeconds cfg"
proof -
  let ?win = "\<lparr>windowStart = t0, count = 1\<rparr>"
  let ?st' = "st((identity, bucket) \<mapsto> ?win)"
  have step: "check cfg identity bucket t0 st = (decide cfg t0 ?win, ?st')"
    using fresh by (auto simp: check_def Let_def)
  have run: "checks cfg identity bucket (t0 # later) st =
               replicate (limit cfg) Allow
               @ [Deny (windowLengthSeconds cfg - (last (t0 # later) - t0))]"
  proof (cases "later = []")
    case True
    with len have "limit cfg = 0" by simp
    then have "decide cfg t0 ?win = Deny (windowLengthSeconds cfg - (t0 - t0))"
      by (simp add: decide_def)
    with step True \<open>limit cfg = 0\<close> show ?thesis by simp
  next
    case False
    with len have "1 \<le> limit cfg" by (cases later) simp_all
    then have d: "decide cfg t0 ?win = Allow" by (simp add: decide_def)
    have "checks cfg identity bucket later ?st' =
            replicate (length later - 1) Allow
            @ [Deny (windowLengthSeconds cfg - (last later - windowStart ?win))]"
      using inside len False by (intro checks_active_window) simp_all
    moreover have "Allow # replicate (length later - 1) Allow = replicate (limit cfg) Allow"
    proof -
      from False obtain n where n: "length later = Suc n" by (cases later) simp_all
      with len have "limit cfg = Suc n" by simp
      with n show ?thesis by simp
    qed
    ultimately show ?thesis
      using step d False by (cases later) simp_all
  qed
  have "last (t0 # later) \<in> set (t0 # later)" by (rule last_in_set) simp
  then have lt: "last (t0 # later) - t0 < windowLengthSeconds cfg" and ge: "t0 \<le> last (t0 # later)"
    using inside ordered by auto
  from run lt ge show ?thesis by simp
qed

theorem fixed_window_limit_then_deny_witness:
  "checks scenario_limiter ''ip:203.0.113.7'' ''translate'' [100, 101, 102, 103, 104, 110] Map.empty
     = [Allow, Allow, Allow, Allow, Allow, Deny 50]"
proof -
  have fresh: "Map.empty (''ip:203.0.113.7'', ''translate'') = None \<or>
               (\<exists>w. Map.empty (''ip:203.0.113.7'', ''translate'') = Some w
                    \<and> \<not> 100 - windowStart w < windowLengthSeconds scenario_limiter)"
    by simp
  have len: "length [101, 102, 103, 104, 110 :: int] = limit scenario_limiter"
    by (simp add: scenario_limiter_def)
  have ordered: "sorted (100 # [101, 102, 103, 104, 110 :: int])"
    by simp
  have inside: "\<forall>t\<in>set (100 # [101, 102, 103, 104, 110 :: int]).
                  t - 100 < windowLengthSeconds scenario_limiter"
    by (simp add: scenario_limiter_def)
  from fixed_window_limit_then_deny [OF fresh len ordered inside]
  show ?thesis by (simp add: scenario_limiter_def eval_nat_numeral)
qed

end
